theory Spec2Isabelle
  imports Complex_Main
begin

section \<open>The deployment script \<^verbatim>\<open>deploy.py\<close>\<close>

text \<open>
  The script reads six environment variables, exchanges a refresh token for an access
  token, uploads a file to the Chrome Web Store and publishes it. Everything it does
  beyond computing values is made explicit here: the environment, the file system and the
  HTTP transport are fields of a \<open>world\<close>; what the run has done so far (each file
  opened, each request sent, each file closed, in the order it happened) and the file
  handles that are open are fields of a \<open>state\<close> that every operation takes and
  returns; every exception is a value of type \<open>error\<close>.
\<close>

subsection \<open>Values decoded from a JSON body\<close>

text \<open>
  What \<^verbatim>\<open>r.json()\<close> returns: \<^verbatim>\<open>None\<close>, a bool, an int, a float, a str, a list or a
  dict. A dict is the list of its items (keys distinct). A float is zero, a finite
  non-zero value, an infinity or NaN (Python's decoder accepts the last three literals).
\<close>

datatype pyfloat = Finite rat | PosInf | NegInf | NaN

datatype jvalue =
    JNull
  | JBool bool
  | JInt int
  | JFloat pyfloat
  | JString string
  | JArray "jvalue list"
  | JObject "(string \<times> jvalue) list"

text \<open>Python's truth value of a decoded JSON value (\<^verbatim>\<open>if not token\<close>).\<close>

fun truthy :: "jvalue \<Rightarrow> bool" where
  "truthy JNull = False"
| "truthy (JBool b) = b"
| "truthy (JInt i) = (i \<noteq> 0)"
| "truthy (JFloat (Finite q)) = (q \<noteq> 0)"
| "truthy (JFloat _) = True"
| "truthy (JString s) = (s \<noteq> [])"
| "truthy (JArray xs) = (xs \<noteq> [])"
| "truthy (JObject d) = (d \<noteq> [])"

text \<open>Lists and dicts are unhashable: they cannot be members of a Python set.\<close>

fun hashable :: "jvalue \<Rightarrow> bool" where
  "hashable (JArray _) = False"
| "hashable (JObject _) = False"
| "hashable _ = True"

subsection \<open>Exceptions\<close>

text \<open>
  \<open>KeyError\<close> is raised by \<^verbatim>\<open>os.environ[...]\<close>, \<open>OSError\<close> by \<^verbatim>\<open>open\<close>,
  \<open>RequestException\<close> by the transport (no connection, time-out, ...),
  \<open>JSONDecodeError\<close> by \<^verbatim>\<open>r.json()\<close> on a body that is not JSON, \<open>AttributeError\<close>
  by \<^verbatim>\<open>.get\<close> on a decoded value that is not a dict, \<open>TypeError\<close> by \<^verbatim>\<open>set(...)\<close>,
  \<open>HTTPError\<close> by \<^verbatim>\<open>r.raise_for_status()\<close>, and \<open>RuntimeError\<close> by the script itself.
\<close>

datatype error =
    KeyError string
  | OSError string
  | RequestException string
  | JSONDecodeError
  | AttributeError
  | TypeError
  | HTTPError int
  | RuntimeError string

definition bind :: "error + 'a \<Rightarrow> ('a \<Rightarrow> error + 'b) \<Rightarrow> error + 'b" where
  "bind m f = (case m of Inl e \<Rightarrow> Inl e | Inr x \<Rightarrow> f x)"

subsection \<open>Requests, responses, files\<close>

text \<open>
  A header value is a literal string or the format \<^verbatim>\<open>'Bearer %s' % token\<close>, kept
  symbolic (the token is whatever value the token endpoint's JSON held).
\<close>

datatype header_value = Lit string | Bearer jvalue

record file_handle =
  name :: string
  mode :: string
  content :: string

datatype body = NoData | FormData "(string \<times> string) list" | FileData file_handle

record request =
  verb :: string
  url :: string
  params :: "(string \<times> string) list"
  headers :: "(string \<times> header_value) list"
  data :: body

text \<open>
  A response as the script reads it: \<^verbatim>\<open>r.status_code\<close>, \<^verbatim>\<open>r.text\<close> (the field
  \<open>text_body\<close>) and the result of \<^verbatim>\<open>r.json()\<close> (\<open>None\<close> when the body does not
  decode).
\<close>

record response =
  status_code :: int
  text_body :: string
  json :: "jvalue option"

record world =
  environ :: "string \<Rightarrow> string option"
  files :: "string \<Rightarrow> error + string"
  send :: "request \<Rightarrow> error + response"

text \<open>
  The effects of a run, in the order they happen: \<^verbatim>\<open>open\<close> returned a handle, a request
  went to the transport, a handle was closed.
\<close>

datatype event = Opened file_handle | Sent request | Closed file_handle

record state =
  events :: "event list"
  open_files :: "file_handle list"

text \<open>The requests sent so far, in order.\<close>

fun sent :: "event list \<Rightarrow> request list" where
  "sent [] = []"
| "sent (Sent req # es) = req # sent es"
| "sent (Opened f # es) = sent es"
| "sent (Closed f # es) = sent es"

definition calls :: "state \<Rightarrow> request list" where
  "calls s = sent (events s)"

subsection \<open>Library operations the script calls\<close>

definition getenv :: "world \<Rightarrow> string \<Rightarrow> error + string" where
  \<comment> \<open>\<^verbatim>\<open>os.environ[k]\<close>\<close>
  "getenv w k = (case environ w k of None \<Rightarrow> Inl (KeyError k) | Some v \<Rightarrow> Inr v)"

definition requests_call :: "world \<Rightarrow> request \<Rightarrow> state \<Rightarrow> (error + response) \<times> state" where
  \<comment> \<open>\<^verbatim>\<open>requests.post\<close> and \<^verbatim>\<open>requests.put\<close>: the request is recorded, the transport answers\<close>
  "requests_call w req s = (send w req, s\<lparr>events := events s @ [Sent req]\<rparr>)"

definition raise_for_status :: "response \<Rightarrow> error + unit" where
  \<comment> \<open>\<^verbatim>\<open>Response.raise_for_status\<close> of the requests library: it raises for a client error
      (4xx) and for a server error (5xx), and for no other status\<close>
  "raise_for_status r =
     (if 400 \<le> status_code r \<and> status_code r < 600 then Inl (HTTPError (status_code r))
      else Inr ())"

definition response_json :: "response \<Rightarrow> error + jvalue" where
  \<comment> \<open>\<^verbatim>\<open>r.json()\<close>\<close>
  "response_json r = (case json r of None \<Rightarrow> Inl JSONDecodeError | Some j \<Rightarrow> Inr j)"

definition get :: "jvalue \<Rightarrow> string \<Rightarrow> jvalue \<Rightarrow> error + jvalue" where
  \<comment> \<open>\<^verbatim>\<open>j.get(k, default)\<close>: only a dict has it\<close>
  "get j k dflt =
     (case j of
        JObject d \<Rightarrow> (case map_of d k of None \<Rightarrow> Inr dflt | Some v \<Rightarrow> Inr v)
      | _ \<Rightarrow> Inl AttributeError)"

definition py_set :: "jvalue \<Rightarrow> error + jvalue set" where
  \<comment> \<open>\<^verbatim>\<open>set(j)\<close>: the elements of a list (all hashable), the characters of a str, the keys
      of a dict; anything else is not iterable. Python's set identifies \<^verbatim>\<open>1\<close>, \<^verbatim>\<open>1.0\<close> and
      \<^verbatim>\<open>True\<close>; the script only tests whether the set without \<^verbatim>\<open>'OK'\<close> is empty, which
      that does not change\<close>
  "py_set j =
     (case j of
        JArray xs \<Rightarrow> if list_all hashable xs then Inr (set xs) else Inl TypeError
      | JString cs \<Rightarrow> Inr (set (map (\<lambda>c. JString [c]) cs))
      | JObject d \<Rightarrow> Inr (set (map (\<lambda>kv. JString (fst kv)) d))
      | _ \<Rightarrow> Inl TypeError)"

definition py_open :: "world \<Rightarrow> string \<Rightarrow> string \<Rightarrow> state \<Rightarrow> (error + file_handle) \<times> state" where
  \<comment> \<open>\<^verbatim>\<open>open(path, mode)\<close>: when it raises nothing happened; otherwise the new handle is
      open\<close>
  "py_open w path m s =
     (case files w path of
        Inl e \<Rightarrow> (Inl e, s)
      | Inr c \<Rightarrow>
          (let f = \<lparr>name = path, mode = m, content = c\<rparr>
           in (Inr f, s\<lparr>events := events s @ [Opened f], open_files := f # open_files s\<rparr>)))"

definition py_close :: "file_handle \<Rightarrow> state \<Rightarrow> state" where
  \<comment> \<open>what leaving the \<^verbatim>\<open>with\<close> block does to the handle, normally or by an exception\<close>
  "py_close f s =
     s\<lparr>events := events s @ [Closed f], open_files := remove1 f (open_files s)\<rparr>"

subsection \<open>The script\<close>

definition defaultHeaders :: "jvalue \<Rightarrow> (string \<times> header_value) list" where
  "defaultHeaders token =
     [(''Authorization'', Bearer token), (''x-goog-api-version'', Lit ''2'')]"

definition getToken :: "world \<Rightarrow> state \<Rightarrow> (error + jvalue) \<times> state" where
  "getToken w s =
     (case getenv w ''WEBSTORE_CLIENT_ID'' of Inl e \<Rightarrow> (Inl e, s) | Inr client_id \<Rightarrow>
     (case getenv w ''WEBSTORE_CLIENT_SECRET'' of Inl e \<Rightarrow> (Inl e, s) | Inr client_secret \<Rightarrow>
     (case getenv w ''WEBSTORE_REFRESH_TOKEN'' of Inl e \<Rightarrow> (Inl e, s) | Inr refresh_token \<Rightarrow>
     (case requests_call w
             \<lparr>verb = ''POST'', url = ''https://accounts.google.com/o/oauth2/token'',
              params = [], headers = [],
              data = FormData
                [(''client_id'', client_id),
                 (''client_secret'', client_secret),
                 (''refresh_token'', refresh_token),
                 (''grant_type'', ''refresh_token''),
                 (''redirect_uri'', ''urn:ietf:wg:oauth:2.0:oob'')]\<rparr> s of
        (Inl e, s') \<Rightarrow> (Inl e, s')
      | (Inr r, s') \<Rightarrow>
          (bind (response_json r) (\<lambda>j.
           bind (get j ''access_token'' JNull) (\<lambda>token.
           if \<not> truthy token
           then Inl (RuntimeError (''Failed to get access token: '' @ text_body r))
           else Inr token)), s')))))"

text \<open>
  The \<^verbatim>\<open>with\<close> block of \<^verbatim>\<open>upload\<close>: when \<^verbatim>\<open>open\<close> raises, nothing was opened and the
  block does not run; otherwise the block runs to its result (a value or an exception)
  and the handle is closed on the way out.
\<close>

definition upload :: "world \<Rightarrow> jvalue \<Rightarrow> string \<Rightarrow> string \<Rightarrow> state \<Rightarrow> (error + unit) \<times> state" where
  "upload w token extension_id file_path s =
     (let url = ''https://www.googleapis.com/upload/chromewebstore/v1.1/items/'' @ extension_id;
          headers = defaultHeaders token
      in case py_open w file_path ''rb'' s of
           (Inl e, s') \<Rightarrow> (Inl e, s')
         | (Inr f, s') \<Rightarrow>
             (let (res, s'') =
                (case requests_call w
                        \<lparr>verb = ''PUT'', url = url, params = [], headers = headers,
                         data = FileData f\<rparr> s' of
                   (Inl e, s'') \<Rightarrow> (Inl e, s'')
                 | (Inr r, s'') \<Rightarrow>
                     (bind (raise_for_status r) (\<lambda>_.
                      bind (response_json r) (\<lambda>j.
                      bind (get j ''uploadState'' JNull) (\<lambda>uploadState.
                      if uploadState \<noteq> JString ''SUCCESS''
                      then Inl (RuntimeError (''Upload failed: '' @ text_body r))
                      else Inr ()))), s''))
              in (res, py_close f s'')))"

definition publish :: "world \<Rightarrow> jvalue \<Rightarrow> string \<Rightarrow> string \<Rightarrow> state \<Rightarrow> (error + unit) \<times> state" where
  "publish w token extension_id publish_target s =
     (let url = ''https://www.googleapis.com/chromewebstore/v1.1/items/'' @ extension_id
                  @ ''/publish'';
          params = [(''uploadType'', ''media'')];
          headers = defaultHeaders token @ [(''publishTarget'', Lit publish_target)]
      in case requests_call w
                \<lparr>verb = ''POST'', url = url, params = params, headers = headers,
                 data = NoData\<rparr> s of
           (Inl e, s') \<Rightarrow> (Inl e, s')
         | (Inr r, s') \<Rightarrow>
             (bind (raise_for_status r) (\<lambda>_.
              bind (response_json r) (\<lambda>j.
              bind (get j ''status'' (JArray [])) (\<lambda>status.
              bind (py_set status) (\<lambda>statuses.
              let errors = statuses - {JString ''OK''}
              in if errors \<noteq> {}
                 then Inl (RuntimeError (''Publish failed: '' @ text_body r))
                 else Inr ())))), s'))"

definition main :: "world \<Rightarrow> state \<Rightarrow> (error + unit) \<times> state" where
  "main w s =
     (case getenv w ''EXTENSION_ID'' of Inl e \<Rightarrow> (Inl e, s) | Inr extension_id \<Rightarrow>
     (case getenv w ''FILE_NAME'' of Inl e \<Rightarrow> (Inl e, s) | Inr file_path \<Rightarrow>
     (case getenv w ''PUBLISH_TARGET'' of Inl e \<Rightarrow> (Inl e, s) | Inr publish_target \<Rightarrow>
     (case getToken w s of
        (Inl e, s1) \<Rightarrow> (Inl e, s1)
      | (Inr token, s1) \<Rightarrow>
          (case upload w token extension_id file_path s1 of
             (Inl e, s2) \<Rightarrow> (Inl e, s2)
           | (Inr _, s2) \<Rightarrow> publish w token extension_id publish_target s2)))))"

text \<open>
  Running the file as a program: \<^verbatim>\<open>main()\<close> from a state where nothing has happened and
  no file is open; the interpreter exits with status 0 when \<^verbatim>\<open>main\<close> returns and with status
  1 when an exception leaves it.
\<close>

definition initial :: state where
  "initial = \<lparr>events = [], open_files = []\<rparr>"

definition script :: "world \<Rightarrow> nat \<times> state" where
  "script w = (case main w initial of (Inl e, s) \<Rightarrow> (1, s) | (Inr _, s) \<Rightarrow> (0, s))"

subsection \<open>The three requests and the required variables\<close>

text \<open>
  Names for what the script builds inline, used to state the properties: the request
  each step sends, the three URLs, and the six variables it looks up.
\<close>

definition token_url :: string where
  "token_url = ''https://accounts.google.com/o/oauth2/token''"

definition upload_url :: "string \<Rightarrow> string" where
  "upload_url extension_id =
     ''https://www.googleapis.com/upload/chromewebstore/v1.1/items/'' @ extension_id"

definition publish_url :: "string \<Rightarrow> string" where
  "publish_url extension_id =
     ''https://www.googleapis.com/chromewebstore/v1.1/items/'' @ extension_id @ ''/publish''"

definition token_request :: "string \<Rightarrow> string \<Rightarrow> string \<Rightarrow> request" where
  "token_request client_id client_secret refresh_token =
     \<lparr>verb = ''POST'', url = token_url, params = [], headers = [],
      data = FormData
        [(''client_id'', client_id),
         (''client_secret'', client_secret),
         (''refresh_token'', refresh_token),
         (''grant_type'', ''refresh_token''),
         (''redirect_uri'', ''urn:ietf:wg:oauth:2.0:oob'')]\<rparr>"

definition upload_request :: "jvalue \<Rightarrow> string \<Rightarrow> string \<Rightarrow> string \<Rightarrow> request" where
  "upload_request token extension_id file_path bytes =
     \<lparr>verb = ''PUT'', url = upload_url extension_id, params = [],
      headers = [(''Authorization'', Bearer token), (''x-goog-api-version'', Lit ''2'')],
      data = FileData \<lparr>name = file_path, mode = ''rb'', content = bytes\<rparr>\<rparr>"

definition publish_request :: "jvalue \<Rightarrow> string \<Rightarrow> string \<Rightarrow> request" where
  "publish_request token extension_id publish_target =
     \<lparr>verb = ''POST'', url = publish_url extension_id,
      params = [(''uploadType'', ''media'')],
      headers = [(''Authorization'', Bearer token), (''x-goog-api-version'', Lit ''2''),
                 (''publishTarget'', Lit publish_target)],
      data = NoData\<rparr>"

definition required_variables :: "string list" where
  "required_variables =
     [''WEBSTORE_CLIENT_ID'', ''WEBSTORE_CLIENT_SECRET'', ''WEBSTORE_REFRESH_TOKEN'',
      ''EXTENSION_ID'', ''FILE_NAME'', ''PUBLISH_TARGET'']"

definition success_status :: "response \<Rightarrow> bool" where
  \<comment> \<open>a 2xx HTTP status\<close>
  "success_status r = (200 \<le> status_code r \<and> status_code r < 300)"

subsection \<open>A concrete run\<close>

text \<open>
  An environment with the six variables, a file system holding the package, and a
  transport that answers the three endpoints with three given responses.
\<close>

definition example_environ :: "string \<Rightarrow> string option" where
  "example_environ =
     map_of
       [(''WEBSTORE_CLIENT_ID'', ''id''), (''WEBSTORE_CLIENT_SECRET'', ''secret''),
        (''WEBSTORE_REFRESH_TOKEN'', ''refresh''), (''EXTENSION_ID'', ''ext''),
        (''FILE_NAME'', ''ext.zip''), (''PUBLISH_TARGET'', ''default'')]"

definition example_world :: "response \<Rightarrow> response \<Rightarrow> response \<Rightarrow> world" where
  "example_world r1 r2 r3 =
     \<lparr>environ = example_environ,
      files = (\<lambda>p. if p = ''ext.zip'' then Inr ''PK'' else Inl (OSError p)),
      send = (\<lambda>req. if url req = token_url then Inr r1
                     else if verb req = ''PUT'' then Inr r2 else Inr r3)\<rparr>"

definition json_response :: "int \<Rightarrow> string \<Rightarrow> jvalue \<Rightarrow> response" where
  "json_response c t j = \<lparr>status_code = c, text_body = t, json = Some j\<rparr>"

definition token_ok :: response where
  "token_ok = json_response 200 ''{access_token: X}'' (JObject [(''access_token'', JString ''X'')])"

definition upload_ok :: response where
  "upload_ok = json_response 200 ''{uploadState: SUCCESS}''
     (JObject [(''uploadState'', JString ''SUCCESS'')])"

definition publish_ok :: response where
  "publish_ok = json_response 200 ''{status: [OK]}'' (JObject [(''status'', JArray [JString ''OK''])])"

text \<open>
  A response whose body is an HTML page, not JSON (what a gateway in front of an
  endpoint sends), with a given status.
\<close>

definition html_response :: "int \<Rightarrow> response" where
  "html_response c = \<lparr>status_code = c, text_body = ''<html>Bad Gateway</html>'', json = None\<rparr>"

definition example_file :: file_handle where
  "example_file = \<lparr>name = ''ext.zip'', mode = ''rb'', content = ''PK''\<rparr>"

section \<open>Basic facts\<close>

lemma bind_Inl [simp]: "bind (Inl e) f = Inl e"
  by (simp add: bind_def)

lemma bind_Inr [simp]: "bind (Inr x) f = f x"
  by (simp add: bind_def)

lemma getenv_Some [simp]: "environ w k = Some v \<Longrightarrow> getenv w k = Inr v"
  by (simp add: getenv_def)

lemma getenv_None [simp]: "environ w k = None \<Longrightarrow> getenv w k = Inl (KeyError k)"
  by (simp add: getenv_def)

lemma raise_for_status_2xx [simp]: "success_status r \<Longrightarrow> raise_for_status r = Inr ()"
  by (simp add: raise_for_status_def success_status_def)

lemma raise_for_status_error [simp]:
  "400 \<le> status_code r \<Longrightarrow> status_code r < 600 \<Longrightarrow>
   raise_for_status r = Inl (HTTPError (status_code r))"
  by (simp add: raise_for_status_def)

lemma sent_append [simp]: "sent (es @ es') = sent es @ sent es'"
  by (induction es rule: sent.induct) simp_all

lemma calls_events [simp]: "calls (s\<lparr>events := es\<rparr>) = sent es"
  by (simp add: calls_def)

lemma calls_initial [simp]: "calls initial = []"
  by (simp add: calls_def initial_def)

text \<open>What each operation does once the transport has answered.\<close>

lemma getToken_sent:
  assumes "environ w ''WEBSTORE_CLIENT_ID'' = Some a"
    and "environ w ''WEBSTORE_CLIENT_SECRET'' = Some b"
    and "environ w ''WEBSTORE_REFRESH_TOKEN'' = Some c"
  shows "getToken w s =
     ((case send w (token_request a b c) of
         Inl e \<Rightarrow> Inl e
       | Inr r \<Rightarrow>
           bind (response_json r) (\<lambda>j.
           bind (get j ''access_token'' JNull) (\<lambda>token.
           if \<not> truthy token
           then Inl (RuntimeError (''Failed to get access token: '' @ text_body r))
           else Inr token))),
      s\<lparr>events := events s @ [Sent (token_request a b c)]\<rparr>)"
  using assms
  by (simp add: getToken_def requests_call_def token_request_def token_url_def
      split: sum.splits)

lemma upload_not_opened:
  "files w file_path = Inl e \<Longrightarrow> upload w token extension_id file_path s = (Inl e, s)"
  by (simp add: upload_def py_open_def)

lemma upload_sent:
  assumes "files w file_path = Inr bytes"
  shows "upload w token extension_id file_path s =
     ((case send w (upload_request token extension_id file_path bytes) of
         Inl e \<Rightarrow> Inl e
       | Inr r \<Rightarrow>
           bind (raise_for_status r) (\<lambda>_.
           bind (response_json r) (\<lambda>j.
           bind (get j ''uploadState'' JNull) (\<lambda>uploadState.
           if uploadState \<noteq> JString ''SUCCESS''
           then Inl (RuntimeError (''Upload failed: '' @ text_body r))
           else Inr ())))),
      s\<lparr>events := events s @
         [Opened \<lparr>name = file_path, mode = ''rb'', content = bytes\<rparr>,
          Sent (upload_request token extension_id file_path bytes),
          Closed \<lparr>name = file_path, mode = ''rb'', content = bytes\<rparr>]\<rparr>)"
  using assms
  by (simp add: upload_def py_open_def py_close_def requests_call_def upload_request_def
      upload_url_def defaultHeaders_def Let_def split: sum.splits)

lemma publish_sent:
  "publish w token extension_id publish_target s =
     ((case send w (publish_request token extension_id publish_target) of
         Inl e \<Rightarrow> Inl e
       | Inr r \<Rightarrow>
           bind (raise_for_status r) (\<lambda>_.
           bind (response_json r) (\<lambda>j.
           bind (get j ''status'' (JArray [])) (\<lambda>status.
           bind (py_set status) (\<lambda>statuses.
           if statuses - {JString ''OK''} \<noteq> {}
           then Inl (RuntimeError (''Publish failed: '' @ text_body r))
           else Inr ()))))),
      s\<lparr>events := events s @ [Sent (publish_request token extension_id publish_target)]\<rparr>)"
  by (simp add: publish_def requests_call_def publish_request_def publish_url_def
      defaultHeaders_def Let_def split: sum.splits)


lemma example_environ_simps [simp]:
  "example_environ ''WEBSTORE_CLIENT_ID'' = Some ''id''"
  "example_environ ''WEBSTORE_CLIENT_SECRET'' = Some ''secret''"
  "example_environ ''WEBSTORE_REFRESH_TOKEN'' = Some ''refresh''"
  "example_environ ''EXTENSION_ID'' = Some ''ext''"
  "example_environ ''FILE_NAME'' = Some ''ext.zip''"
  "example_environ ''PUBLISH_TARGET'' = Some ''default''"
  by (simp_all add: example_environ_def)

lemma example_world_simps [simp]:
  "environ (example_world r1 r2 r3) = example_environ"
  "files (example_world r1 r2 r3) ''ext.zip'' = Inr ''PK''"
  "send (example_world r1 r2 r3) (token_request a b c) = Inr r1"
  "send (example_world r1 r2 r3) (upload_request token e p bytes) = Inr r2"
  "send (example_world r1 r2 r3) (publish_request token e t) = Inr r3"
  by (simp_all add: example_world_def token_request_def upload_request_def
      publish_request_def token_url_def publish_url_def upload_url_def)

lemma response_json_Some [simp]: "json r = Some j \<Longrightarrow> response_json r = Inr j"
  by (simp add: response_json_def)

lemma response_json_None [simp]: "json r = None \<Longrightarrow> response_json r = Inl JSONDecodeError"
  by (simp add: response_json_def)

lemma get_JObject [simp]:
  "get (JObject d) k dflt = Inr (case map_of d k of None \<Rightarrow> dflt | Some v \<Rightarrow> v)"
  by (simp add: get_def split: option.splits)

lemma get_not_dict:
  "\<not> (\<exists>d. j = JObject d) \<Longrightarrow> get j k dflt = Inl AttributeError"
  by (cases j) (simp_all add: get_def)

lemma py_set_codes [simp]: "py_set (JArray (map JString S)) = Inr (JString ` set S)"
  by (simp add: py_set_def list_all_iff)

lemma getToken_missing:
  assumes "environ w ''WEBSTORE_CLIENT_ID'' = None \<or>
           environ w ''WEBSTORE_CLIENT_SECRET'' = None \<or>
           environ w ''WEBSTORE_REFRESH_TOKEN'' = None"
  shows "\<exists>k. k \<in> set required_variables \<and> environ w k = None \<and>
             (\<forall>s. getToken w s = (Inl (KeyError k), s))"
proof (cases "environ w ''WEBSTORE_CLIENT_ID''")
  case None
  then have "\<forall>s. getToken w s = (Inl (KeyError ''WEBSTORE_CLIENT_ID''), s)"
    by (simp add: getToken_def)
  with None show ?thesis by (auto simp: required_variables_def)
next
  case a: (Some a)
  show ?thesis
  proof (cases "environ w ''WEBSTORE_CLIENT_SECRET''")
    case None
    with a have "\<forall>s. getToken w s = (Inl (KeyError ''WEBSTORE_CLIENT_SECRET''), s)"
      by (simp add: getToken_def)
    with None show ?thesis by (auto simp: required_variables_def)
  next
    case b: (Some b)
    with a assms have c: "environ w ''WEBSTORE_REFRESH_TOKEN'' = None" by simp
    with a b have "\<forall>s. getToken w s = (Inl (KeyError ''WEBSTORE_REFRESH_TOKEN''), s)"
      by (simp add: getToken_def)
    with c show ?thesis by (auto simp: required_variables_def)
  qed
qed

lemma main_missing:
  assumes "k \<in> set required_variables" and "environ w k = None"
  shows "\<exists>k'. k' \<in> set required_variables \<and> environ w k' = None \<and>
              (\<forall>s. main w s = (Inl (KeyError k'), s))"
proof (cases "environ w ''EXTENSION_ID''")
  case None
  then have "\<forall>s. main w s = (Inl (KeyError ''EXTENSION_ID''), s)"
    by (simp add: main_def)
  with None show ?thesis by (auto simp: required_variables_def)
next
  case e: (Some extension_id)
  show ?thesis
  proof (cases "environ w ''FILE_NAME''")
    case None
    with e have "\<forall>s. main w s = (Inl (KeyError ''FILE_NAME''), s)"
      by (simp add: main_def)
    with None show ?thesis by (auto simp: required_variables_def)
  next
    case f: (Some file_path)
    show ?thesis
    proof (cases "environ w ''PUBLISH_TARGET''")
      case None
      with e f have "\<forall>s. main w s = (Inl (KeyError ''PUBLISH_TARGET''), s)"
        by (simp add: main_def)
      with None show ?thesis by (auto simp: required_variables_def)
    next
      case p: (Some publish_target)
      from assms e f p have "environ w ''WEBSTORE_CLIENT_ID'' = None \<or>
           environ w ''WEBSTORE_CLIENT_SECRET'' = None \<or>
           environ w ''WEBSTORE_REFRESH_TOKEN'' = None"
        by (auto simp: required_variables_def)
      from getToken_missing [OF this] obtain k' where
        k': "k' \<in> set required_variables" "environ w k' = None"
          "\<forall>s. getToken w s = (Inl (KeyError k'), s)"
        by blast
      from k'(3) e f p have "\<forall>s. main w s = (Inl (KeyError k'), s)"
        by (simp add: main_def)
      with k'(1,2) show ?thesis by blast
    qed
  qed
qed

lemma getToken_state:
  "getToken w s = (res, s1) \<Longrightarrow>
     open_files s1 = open_files s \<and>
     (calls s1 = calls s \<or> (\<exists>a b c. calls s1 = calls s @ [token_request a b c]))"
proof (cases "environ w ''WEBSTORE_CLIENT_ID'' = None \<or>
           environ w ''WEBSTORE_CLIENT_SECRET'' = None \<or>
           environ w ''WEBSTORE_REFRESH_TOKEN'' = None")
  case True
  from getToken_missing [OF this] obtain k where "getToken w s = (Inl (KeyError k), s)"
    by blast
  moreover assume "getToken w s = (res, s1)"
  ultimately show ?thesis by simp
next
  case False
  then obtain a b c where abc: "environ w ''WEBSTORE_CLIENT_ID'' = Some a"
    "environ w ''WEBSTORE_CLIENT_SECRET'' = Some b"
    "environ w ''WEBSTORE_REFRESH_TOKEN'' = Some c"
    by auto
  assume "getToken w s = (res, s1)"
  then have "s1 = s\<lparr>events := events s @ [Sent (token_request a b c)]\<rparr>"
    by (simp add: getToken_sent [OF abc])
  then show ?thesis by (auto simp: calls_def)
qed

lemma upload_state:
  "upload w token extension_id file_path s = (res, s2) \<Longrightarrow>
     open_files s2 = open_files s \<and>
     (calls s2 = calls s \<or>
      (\<exists>bytes. calls s2 = calls s @ [upload_request token extension_id file_path bytes]))"
proof (cases "files w file_path")
  case (Inl e)
  assume "upload w token extension_id file_path s = (res, s2)"
  with Inl show ?thesis by (simp add: upload_not_opened)
next
  case (Inr bytes)
  assume "upload w token extension_id file_path s = (res, s2)"
  with Inr have "s2 = s\<lparr>events := events s @
      [Opened \<lparr>name = file_path, mode = ''rb'', content = bytes\<rparr>,
       Sent (upload_request token extension_id file_path bytes),
       Closed \<lparr>name = file_path, mode = ''rb'', content = bytes\<rparr>]\<rparr>"
    by (simp add: upload_sent)
  then show ?thesis by (auto simp: calls_def)
qed

lemma request_urls [simp]:
  "url (token_request a b c) = token_url"
  "url (upload_request token extension_id file_path bytes) = upload_url extension_id"
  "url (publish_request token extension_id publish_target) = publish_url extension_id"
  by (simp_all add: token_request_def upload_request_def publish_request_def)

lemma urls_differ [simp]:
  "token_url \<noteq> upload_url e" "token_url \<noteq> publish_url e" "upload_url e \<noteq> publish_url e'"
  "upload_url e \<noteq> token_url" "publish_url e \<noteq> token_url" "publish_url e' \<noteq> upload_url e"
  by (simp_all add: token_url_def upload_url_def publish_url_def)

text \<open>
  A body that does not decode, or decodes to something other than a JSON object, ends
  each operation with the library's exception, not with the script's \<open>RuntimeError\<close>.
\<close>

lemma getToken_body_not_object:
  assumes "environ w ''WEBSTORE_CLIENT_ID'' = Some a"
    and "environ w ''WEBSTORE_CLIENT_SECRET'' = Some b"
    and "environ w ''WEBSTORE_REFRESH_TOKEN'' = Some c"
    and "send w (token_request a b c) = Inr r"
    and "\<not> (\<exists>d. json r = Some (JObject d))"
  shows "fst (getToken w s) \<in> {Inl JSONDecodeError, Inl AttributeError}"
proof (cases "json r")
  case None
  with assms(4) show ?thesis by (simp add: getToken_sent [OF assms(1-3)])
next
  case (Some j)
  with assms(5) have "\<not> (\<exists>d. j = JObject d)" by simp
  then have "get j ''access_token'' JNull = Inl AttributeError" by (rule get_not_dict)
  with Some assms(4) show ?thesis by (simp add: getToken_sent [OF assms(1-3)])
qed

lemma upload_body_not_object:
  assumes "files w file_path = Inr bytes"
    and "send w (upload_request token extension_id file_path bytes) = Inr r"
    and "success_status r"
    and "\<not> (\<exists>d. json r = Some (JObject d))"
  shows "fst (upload w token extension_id file_path s) \<in> {Inl JSONDecodeError, Inl AttributeError}"
proof (cases "json r")
  case None
  with assms(1-3) show ?thesis by (simp add: upload_sent)
next
  case (Some j)
  with assms(4) have "\<not> (\<exists>d. j = JObject d)" by simp
  then have "get j ''uploadState'' JNull = Inl AttributeError" by (rule get_not_dict)
  with Some assms(1-3) show ?thesis by (simp add: upload_sent)
qed

lemma publish_body_not_object:
  assumes "send w (publish_request token extension_id publish_target) = Inr r"
    and "success_status r"
    and "\<not> (\<exists>d. json r = Some (JObject d))"
  shows "fst (publish w token extension_id publish_target s) \<in>
           {Inl JSONDecodeError, Inl AttributeError}"
proof (cases "json r")
  case None
  with assms(1,2) show ?thesis by (simp add: publish_sent)
next
  case (Some j)
  with assms(3) have "\<not> (\<exists>d. j = JObject d)" by simp
  then have "get j ''status'' (JArray []) = Inl AttributeError" by (rule get_not_dict)
  with Some assms(1,2) show ?thesis by (simp add: publish_sent)
qed

section \<open>The claims\<close>

text \<open>
  Claim C3 says, for every response of the token endpoint, that an absent \<open>access_token\<close>
  field ends in the script's own error carrying the raw body. A body that is not JSON (a
  gateway's HTML page with status 502) has no such field, and \<^verbatim>\<open>r.json()\<close> raises
  \<open>JSONDecodeError\<close> before the field is looked at; the JSON body \<^verbatim>\<open>null\<close> has none
  either, and \<^verbatim>\<open>.get\<close> raises \<open>AttributeError\<close>.
\<close>
theorem getToken_body_not_json:
  "json (html_response 502) = None \<and>
   fst (getToken (example_world (html_response 502) upload_ok publish_ok) initial) =
     Inl JSONDecodeError \<and>
   fst (getToken (example_world (json_response 200 ''null'' JNull) upload_ok publish_ok)
          initial) = Inl AttributeError"
  by (simp add: getToken_sent [of _ "''id''" "''secret''" "''refresh''"] html_response_def
      json_response_def get_def)

text \<open>
  Claim C3, amended. The token endpoint has answered with a response whose body decodes
  to a JSON object. If the object has an \<open>access_token\<close> field whose value \<open>X\<close> is
  non-empty (a value that Python counts as true: for a string, one that is not the empty
  string), \<open>getToken\<close> returns \<open>X\<close>. If the field is absent or its value is empty (one
  that Python counts as false: the empty string, \<^verbatim>\<open>null\<close>, zero, \<^verbatim>\<open>false\<close>, an empty
  list or object), \<open>getToken\<close> raises the \<open>RuntimeError\<close> whose message is
  \<^verbatim>\<open>Failed to get access token: \<close> followed by the raw response body (the spec's
  AuthenticationError).
\<close>
theorem getToken_access_token:
  assumes "environ w ''WEBSTORE_CLIENT_ID'' = Some a"
    and "environ w ''WEBSTORE_CLIENT_SECRET'' = Some b"
    and "environ w ''WEBSTORE_REFRESH_TOKEN'' = Some c"
    and "send w (token_request a b c) = Inr r"
    and "json r = Some (JObject d)"
  shows "(map_of d ''access_token'' = Some X \<and> truthy X \<longrightarrow>
            fst (getToken w s) = Inr X) \<and>
         (map_of d ''access_token'' = None \<or>
            (\<exists>Y. map_of d ''access_token'' = Some Y \<and> \<not> truthy Y) \<longrightarrow>
            fst (getToken w s) =
              Inl (RuntimeError (''Failed to get access token: '' @ text_body r)))"
  using assms(4,5) by (auto simp: getToken_sent [OF assms(1-3)])

theorem getToken_access_token_witness:
  "fst (getToken (example_world token_ok upload_ok publish_ok) initial) = Inr (JString ''X'') \<and>
   fst (getToken (example_world (json_response 200 ''{}'' (JObject [])) upload_ok publish_ok)
          initial) = Inl (RuntimeError ''Failed to get access token: {}'') \<and>
   fst (getToken (example_world (json_response 200 ''{access_token: }''
                    (JObject [(''access_token'', JString '''')])) upload_ok publish_ok)
          initial) = Inl (RuntimeError ''Failed to get access token: {access_token: }'')"
  using getToken_access_token [of "example_world token_ok upload_ok publish_ok"
          "''id''" "''secret''" "''refresh''" token_ok "[(''access_token'', JString ''X'')]"
          "JString ''X''" initial]
    getToken_access_token [of
          "example_world (json_response 200 ''{}'' (JObject [])) upload_ok publish_ok"
          "''id''" "''secret''" "''refresh''" "json_response 200 ''{}'' (JObject [])" "[]"
          JNull initial]
    getToken_access_token [of
          "example_world (json_response 200 ''{access_token: }''
                    (JObject [(''access_token'', JString '''')])) upload_ok publish_ok"
          "''id''" "''secret''" "''refresh''"
          "json_response 200 ''{access_token: }'' (JObject [(''access_token'', JString '''')])"
          "[(''access_token'', JString '''')]" JNull initial]
  by (simp add: token_ok_def json_response_def)

text \<open>
  Claim C4 says, for every 2xx response of the upload endpoint, that \<open>upload\<close> either
  returns normally or raises the script's own error carrying the raw body. On status 200
  with a body that is not JSON it does neither: \<^verbatim>\<open>r.json()\<close> raises \<open>JSONDecodeError\<close>.
\<close>
theorem upload_body_not_json:
  "success_status (html_response 200) \<and>
   fst (upload (example_world token_ok (html_response 200) publish_ok) (JString ''X'')
          ''ext'' ''ext.zip'' initial) = Inl JSONDecodeError"
  by (simp add: upload_sent [of _ _ "''PK''"] html_response_def success_status_def
      raise_for_status_def)

text \<open>
  Claim C4, amended. The upload endpoint has answered with a 2xx status. Then \<open>upload\<close>
  returns normally exactly when the body decodes to a JSON object whose \<open>uploadState\<close>
  field is the string \<open>SUCCESS\<close>; and when the body decodes to a JSON object whose
  \<open>uploadState\<close> is anything else, or missing, \<open>upload\<close> raises the \<open>RuntimeError\<close>
  whose message is \<^verbatim>\<open>Upload failed: \<close> followed by the raw response body (the spec's
  UploadError).
\<close>
theorem upload_2xx:
  assumes "files w file_path = Inr bytes"
    and "send w (upload_request token extension_id file_path bytes) = Inr r"
    and "success_status r"
  shows "((fst (upload w token extension_id file_path s) = Inr ()) =
            (\<exists>d. json r = Some (JObject d) \<and>
                 map_of d ''uploadState'' = Some (JString ''SUCCESS''))) \<and>
         (\<forall>d. json r = Some (JObject d) \<and>
              map_of d ''uploadState'' \<noteq> Some (JString ''SUCCESS'') \<longrightarrow>
              fst (upload w token extension_id file_path s) =
                Inl (RuntimeError (''Upload failed: '' @ text_body r)))"
proof -
  have res: "fst (upload w token extension_id file_path s) =
      bind (response_json r) (\<lambda>j.
      bind (get j ''uploadState'' JNull) (\<lambda>uploadState.
      if uploadState \<noteq> JString ''SUCCESS''
      then Inl (RuntimeError (''Upload failed: '' @ text_body r))
      else Inr ()))"
    using assms by (simp add: upload_sent)
  show ?thesis
  proof (cases "json r")
    case None
    then show ?thesis by (simp add: res)
  next
    case (Some j)
    show ?thesis
    proof (cases "\<exists>d. j = JObject d")
      case True
      then obtain d where "j = JObject d" by blast
      with Some show ?thesis by (auto simp: res split: option.splits)
    next
      case False
      then have "get j ''uploadState'' JNull = Inl AttributeError"
        by (rule get_not_dict)
      with Some False show ?thesis by (simp add: res)
    qed
  qed
qed

theorem upload_2xx_witness:
  "fst (upload (example_world token_ok upload_ok publish_ok) (JString ''X'') ''ext'' ''ext.zip''
          initial) = Inr () \<and>
   fst (upload (example_world token_ok
                  (json_response 200 ''{uploadState: FAILURE}''
                     (JObject [(''uploadState'', JString ''FAILURE'')])) publish_ok)
          (JString ''X'') ''ext'' ''ext.zip'' initial) =
     Inl (RuntimeError ''Upload failed: {uploadState: FAILURE}'')"
  using upload_2xx [of "example_world token_ok upload_ok publish_ok" "''ext.zip''" "''PK''"
          "JString ''X''" "''ext''" upload_ok initial]
    upload_2xx [of "example_world token_ok
                  (json_response 200 ''{uploadState: FAILURE}''
                     (JObject [(''uploadState'', JString ''FAILURE'')])) publish_ok"
          "''ext.zip''" "''PK''" "JString ''X''" "''ext''"
          "json_response 200 ''{uploadState: FAILURE}''
                     (JObject [(''uploadState'', JString ''FAILURE'')])" initial]
  by (simp add: upload_ok_def json_response_def success_status_def)

text \<open>
  Claim C5 says that every status outside 2xx makes \<open>upload\<close> and \<open>publish\<close> fail with
  an HttpError without looking at the body. \<open>raise_for_status\<close> raises for 4xx and 5xx
  only: on status 300 with the body \<^verbatim>\<open>{uploadState: SUCCESS}\<close> the body is inspected and
  \<open>upload\<close> returns normally.
\<close>
theorem non_2xx_not_http_error:
  "\<not> success_status (json_response 300 ''{uploadState: SUCCESS}''
        (JObject [(''uploadState'', JString ''SUCCESS'')])) \<and>
   upload (example_world token_ok
             (json_response 300 ''{uploadState: SUCCESS}''
                (JObject [(''uploadState'', JString ''SUCCESS'')])) publish_ok)
     (JString ''X'') ''ext'' ''ext.zip'' initial =
     (Inr (),
      \<lparr>events = [Opened example_file,
                 Sent (upload_request (JString ''X'') ''ext'' ''ext.zip'' ''PK''),
                 Closed example_file],
       open_files = []\<rparr>)"
  by (simp add: upload_sent [of _ _ "''PK''"] json_response_def success_status_def
      raise_for_status_def initial_def example_file_def)

text \<open>
  Claim C5, amended. For every response of the upload or of the publish endpoint with a
  status from 400 to 599, the operation raises \<open>HTTPError\<close> to its caller. The outcome
  is the same whatever the body holds: neither \<open>json r\<close> nor \<open>text_body r\<close> occurs in
  it. The state is the one before with the operation's events added: for \<open>upload\<close> the
  file opened, the request sent and the file closed; for \<open>publish\<close> the request sent.
\<close>
theorem http_error_status:
  assumes "400 \<le> status_code r" and "status_code r < 600"
  shows "(files w file_path = Inr bytes \<and>
          send w (upload_request token extension_id file_path bytes) = Inr r \<longrightarrow>
            upload w token extension_id file_path s =
              (Inl (HTTPError (status_code r)),
               s\<lparr>events := events s @
                  [Opened \<lparr>name = file_path, mode = ''rb'', content = bytes\<rparr>,
                   Sent (upload_request token extension_id file_path bytes),
                   Closed \<lparr>name = file_path, mode = ''rb'', content = bytes\<rparr>]\<rparr>) \<and>
            calls (snd (upload w token extension_id file_path s)) =
              calls s @ [upload_request token extension_id file_path bytes]) \<and>
         (send w (publish_request token extension_id publish_target) = Inr r \<longrightarrow>
            publish w token extension_id publish_target s =
              (Inl (HTTPError (status_code r)),
               s\<lparr>events := events s @
                  [Sent (publish_request token extension_id publish_target)]\<rparr>) \<and>
            calls (snd (publish w token extension_id publish_target s)) =
              calls s @ [publish_request token extension_id publish_target])"
  using assms by (simp add: upload_sent publish_sent calls_def)

theorem http_error_status_witness:
  "fst (upload (example_world token_ok (json_response 500 ''{uploadState: SUCCESS}''
                  (JObject [(''uploadState'', JString ''SUCCESS'')])) publish_ok)
          (JString ''X'') ''ext'' ''ext.zip'' initial) = Inl (HTTPError 500) \<and>
   fst (publish (example_world token_ok upload_ok
                  (json_response 404 ''{status: [OK]}''
                     (JObject [(''status'', JArray [JString ''OK''])])))
          (JString ''X'') ''ext'' ''default'' initial) = Inl (HTTPError 404)"
  using http_error_status [of "json_response 500 ''{uploadState: SUCCESS}''
                  (JObject [(''uploadState'', JString ''SUCCESS'')])"
          "example_world token_ok (json_response 500 ''{uploadState: SUCCESS}''
                  (JObject [(''uploadState'', JString ''SUCCESS'')])) publish_ok"
          "''ext.zip''" "''PK''" "JString ''X''" "''ext''" initial "''default''"]
    http_error_status [of "json_response 404 ''{status: [OK]}''
                     (JObject [(''status'', JArray [JString ''OK''])])"
          "example_world token_ok upload_ok
                  (json_response 404 ''{status: [OK]}''
                     (JObject [(''status'', JArray [JString ''OK''])]))"
          "''ext.zip''" "''PK''" "JString ''X''" "''ext''" initial "''default''"]
  by (simp add: json_response_def)

text \<open>
  Claim C6. The publish endpoint has answered with a 2xx status and a JSON object whose
  \<open>status\<close> field is a list \<open>S\<close> of codes. Then \<open>publish\<close> returns normally exactly
  when the set of \<open>S\<close> is a subset of \<open>{OK}\<close> (so for the empty list, and for \<open>OK\<close>
  repeated); when \<open>S\<close> holds any other code it raises the \<open>RuntimeError\<close> whose message
  is \<^verbatim>\<open>Publish failed: \<close> followed by the raw response body (the spec's PublishError).
\<close>
theorem publish_status_codes:
  assumes "send w (publish_request token extension_id publish_target) = Inr r"
    and "success_status r"
    and "json r = Some (JObject d)"
    and "map_of d ''status'' = Some (JArray (map JString S))"
  shows "((fst (publish w token extension_id publish_target s) = Inr ()) =
            (set S \<subseteq> {''OK''})) \<and>
         (\<not> set S \<subseteq> {''OK''} \<longrightarrow>
            fst (publish w token extension_id publish_target s) =
              Inl (RuntimeError (''Publish failed: '' @ text_body r)))"
  using assms by (auto simp: publish_sent)

theorem publish_status_codes_witness:
  "fst (publish (example_world token_ok upload_ok publish_ok) (JString ''X'') ''ext''
          ''default'' initial) = Inr () \<and>
   fst (publish (example_world token_ok upload_ok
                   (json_response 200 ''{status: [ITEM_NOT_FOUND]}''
                      (JObject [(''status'', JArray [JString ''ITEM_NOT_FOUND''])])))
          (JString ''X'') ''ext'' ''default'' initial) =
     Inl (RuntimeError ''Publish failed: {status: [ITEM_NOT_FOUND]}'')"
  using publish_status_codes [of "example_world token_ok upload_ok publish_ok"
          "JString ''X''" "''ext''" "''default''" publish_ok
          "[(''status'', JArray [JString ''OK''])]" "[''OK'']" initial]
    publish_status_codes [of "example_world token_ok upload_ok
                   (json_response 200 ''{status: [ITEM_NOT_FOUND]}''
                      (JObject [(''status'', JArray [JString ''ITEM_NOT_FOUND''])]))"
          "JString ''X''" "''ext''" "''default''"
          "json_response 200 ''{status: [ITEM_NOT_FOUND]}''
                      (JObject [(''status'', JArray [JString ''ITEM_NOT_FOUND''])])"
          "[(''status'', JArray [JString ''ITEM_NOT_FOUND''])]" "[''ITEM_NOT_FOUND'']" initial]
  by (simp add: publish_ok_def json_response_def success_status_def)

text \<open>
  Claim C9 says that every 2xx response of the publish endpoint whose JSON body has no
  \<open>status\<close> field makes \<open>publish\<close> return normally. The JSON bodies \<^verbatim>\<open>null\<close> and
  \<^verbatim>\<open>[]\<close> have no such field, and on them \<^verbatim>\<open>.get\<close> raises \<open>AttributeError\<close>.
\<close>
theorem publish_body_null:
  "success_status (json_response 200 ''null'' JNull) \<and>
   fst (publish (example_world token_ok upload_ok (json_response 200 ''null'' JNull))
          (JString ''X'') ''ext'' ''default'' initial) = Inl AttributeError \<and>
   fst (publish (example_world token_ok upload_ok (json_response 200 ''[]'' (JArray [])))
          (JString ''X'') ''ext'' ''default'' initial) = Inl AttributeError"
  by (simp add: publish_sent json_response_def success_status_def raise_for_status_def
      get_def)

text \<open>
  Claim C9, amended. The publish endpoint has answered with a 2xx status and a body that
  decodes to a JSON object with no \<open>status\<close> field. Then \<open>publish\<close> takes the empty
  list for it and returns normally, having sent its one request.
\<close>
theorem publish_without_status:
  assumes "send w (publish_request token extension_id publish_target) = Inr r"
    and "success_status r"
    and "json r = Some (JObject d)"
    and "map_of d ''status'' = None"
  shows "publish w token extension_id publish_target s =
           (Inr (), s\<lparr>events := events s @
                      [Sent (publish_request token extension_id publish_target)]\<rparr>) \<and>
         calls (snd (publish w token extension_id publish_target s)) =
           calls s @ [publish_request token extension_id publish_target]"
  using assms by (simp add: publish_sent py_set_def calls_def)

theorem publish_without_status_witness:
  "fst (publish (example_world token_ok upload_ok (json_response 200 ''{}'' (JObject [])))
          (JString ''X'') ''ext'' ''default'' initial) = Inr ()"
  using publish_without_status [of
          "example_world token_ok upload_ok (json_response 200 ''{}'' (JObject []))"
          "JString ''X''" "''ext''" "''default''" "json_response 200 ''{}'' (JObject [])"
          "[]" initial]
  by (simp add: json_response_def success_status_def)

text \<open>
  Claim C10 says that the outcome of \<open>getToken\<close> depends only on the \<open>access_token\<close>
  field of the JSON body. Three bodies without that field give three outcomes: the object
  \<^verbatim>\<open>{}\<close> and the object \<^verbatim>\<open>{error: invalid_grant}\<close> give the script's \<open>RuntimeError\<close>
  with two different messages (the raw body is part of it), and the list \<^verbatim>\<open>[]\<close> gives
  \<open>AttributeError\<close>.
\<close>
theorem getToken_depends_on_shape:
  "fst (getToken (example_world (json_response 200 ''{}'' (JObject [])) upload_ok publish_ok)
          initial) = Inl (RuntimeError ''Failed to get access token: {}'') \<and>
   fst (getToken (example_world (json_response 200 ''{error: invalid_grant}''
                    (JObject [(''error'', JString ''invalid_grant'')])) upload_ok publish_ok)
          initial) = Inl (RuntimeError ''Failed to get access token: {error: invalid_grant}'') \<and>
   fst (getToken (example_world (json_response 200 ''[]'' (JArray [])) upload_ok publish_ok)
          initial) = Inl AttributeError"
  by (simp add: getToken_sent [of _ "''id''" "''secret''" "''refresh''"] json_response_def
      get_def)

text \<open>
  Claim C10, amended. The outcome of \<open>getToken\<close> never depends on the HTTP status of the
  token endpoint's response. It is fixed by the decoded body and the raw body text: two
  responses with the same decoded body and the same text give the same outcome whatever
  their statuses. When the bodies decode to JSON objects, it is fixed by the
  \<open>access_token\<close> field and the raw text: two such responses with the same
  \<open>access_token\<close> (or both without one) and the same text give the same outcome.
  \<open>getToken\<close> returns \<open>X\<close> exactly when the body decodes to a JSON object whose
  \<open>access_token\<close> is the non-empty value \<open>X\<close>; so a response with a status outside
  2xx whose JSON object has a non-empty \<open>access_token\<close> still returns that token. And
  \<open>getToken\<close> never raises \<open>HTTPError\<close> on a response.
\<close>
theorem getToken_depends_on_body:
  assumes "environ w ''WEBSTORE_CLIENT_ID'' = Some a"
    and "environ w ''WEBSTORE_CLIENT_SECRET'' = Some b"
    and "environ w ''WEBSTORE_REFRESH_TOKEN'' = Some c"
    and "send w (token_request a b c) = Inr r"
  shows "(environ w' = environ w \<and> send w' (token_request a b c) = Inr r' \<and>
          json r' = json r \<and> text_body r' = text_body r \<longrightarrow>
            fst (getToken w' s') = fst (getToken w s)) \<and>
         (environ w' = environ w \<and> send w' (token_request a b c) = Inr r' \<and>
          json r = Some (JObject d) \<and> json r' = Some (JObject d') \<and>
          map_of d' ''access_token'' = map_of d ''access_token'' \<and>
          text_body r' = text_body r \<longrightarrow>
            fst (getToken w' s') = fst (getToken w s)) \<and>
         ((fst (getToken w s) = Inr X) =
            (\<exists>d. json r = Some (JObject d) \<and> map_of d ''access_token'' = Some X \<and>
                 truthy X)) \<and>
         (\<not> success_status r \<and> json r = Some (JObject d) \<and>
          map_of d ''access_token'' = Some X \<and> truthy X \<longrightarrow>
            fst (getToken w s) = Inr X) \<and>
         (\<forall>code. fst (getToken w s) \<noteq> Inl (HTTPError code))"
proof -
  have res: "fst (getToken w s) =
      bind (response_json r) (\<lambda>j.
      bind (get j ''access_token'' JNull) (\<lambda>token.
      if \<not> truthy token
      then Inl (RuntimeError (''Failed to get access token: '' @ text_body r))
      else Inr token))"
    using assms(4) by (simp add: getToken_sent [OF assms(1-3)])
  have res': "fst (getToken w' s') =
      bind (response_json r') (\<lambda>j.
      bind (get j ''access_token'' JNull) (\<lambda>token.
      if \<not> truthy token
      then Inl (RuntimeError (''Failed to get access token: '' @ text_body r'))
      else Inr token))"
    if "environ w' = environ w" and "send w' (token_request a b c) = Inr r'"
    using that assms(1-3) by (simp add: getToken_sent [of w' a b c])
  have same_body: "fst (getToken w' s') = fst (getToken w s)"
    if "environ w' = environ w" and "send w' (token_request a b c) = Inr r'"
      and "json r' = json r" and "text_body r' = text_body r"
    using that(3,4) by (simp add: res res' [OF that(1,2)] response_json_def cong: if_cong)
  have same_field: "fst (getToken w' s') = fst (getToken w s)"
    if "environ w' = environ w" and "send w' (token_request a b c) = Inr r'"
      and "json r = Some (JObject d)" and "json r' = Some (JObject d')"
      and "map_of d' ''access_token'' = map_of d ''access_token''"
      and "text_body r' = text_body r"
    using that(3-6) by (simp add: res res' [OF that(1,2)] cong: if_cong)
  have returns: "(fst (getToken w s) = Inr X) =
      (\<exists>d. json r = Some (JObject d) \<and> map_of d ''access_token'' = Some X \<and> truthy X)"
  proof (cases "json r")
    case None
    then show ?thesis by (simp add: res)
  next
    case (Some j)
    show ?thesis
    proof (cases "\<exists>d. j = JObject d")
      case True
      then obtain d where "j = JObject d" by blast
      with Some show ?thesis by (auto simp: res split: option.splits)
    next
      case False
      then have "get j ''access_token'' JNull = Inl AttributeError"
        by (rule get_not_dict)
      with Some False show ?thesis by (simp add: res)
    qed
  qed
  have no_http: "fst (getToken w s) \<noteq> Inl (HTTPError code)" for code
  proof (cases "json r")
    case None
    then show ?thesis by (simp add: res)
  next
    case (Some j)
    show ?thesis
    proof (cases "\<exists>d. j = JObject d")
      case True
      then show ?thesis using Some by (auto simp: res split: if_splits)
    next
      case False
      then show ?thesis using Some by (simp add: res get_not_dict)
    qed
  qed
  from same_body same_field returns no_http show ?thesis by blast
qed

theorem getToken_depends_on_body_witness:
  "fst (getToken (example_world (json_response 500 ''{access_token: X}''
                    (JObject [(''access_token'', JString ''X'')])) upload_ok publish_ok)
          initial) = Inr (JString ''X'') \<and>
   fst (getToken (example_world token_ok upload_ok publish_ok) initial) =
   fst (getToken (example_world (json_response 500 ''{access_token: X}''
                    (JObject [(''access_token'', JString ''X'')])) upload_ok publish_ok)
          initial)"
  using getToken_depends_on_body [of
          "example_world (json_response 500 ''{access_token: X}''
                    (JObject [(''access_token'', JString ''X'')])) upload_ok publish_ok"
          "''id''" "''secret''" "''refresh''"
          "json_response 500 ''{access_token: X}'' (JObject [(''access_token'', JString ''X'')])"
          "example_world token_ok upload_ok publish_ok" token_ok initial initial
          "[(''access_token'', JString ''X'')]" "[(''access_token'', JString ''X'')]"
          "JString ''X''"]
  by (simp add: json_response_def success_status_def token_ok_def)

text \<open>
  Claim C7. If any of the six required variables is missing from the environment, \<open>main\<close>
  raises \<open>KeyError\<close> for a missing required variable (the spec's
  EnvironmentLookupError) and leaves the state as it was: no request has been sent and no
  file opened. The process exits with status 1 having made no call.
\<close>
theorem missing_variable_no_call:
  assumes "k \<in> set required_variables" and "environ w k = None"
  shows "\<exists>k'. k' \<in> set required_variables \<and> environ w k' = None \<and>
              main w s = (Inl (KeyError k'), s) \<and> script w = (1, initial)"
proof -
  from main_missing [OF assms] obtain k' where
    k': "k' \<in> set required_variables" "environ w k' = None"
      "\<forall>s. main w s = (Inl (KeyError k'), s)"
    by blast
  from k'(3) have "script w = (1, initial)" by (simp add: script_def)
  with k' show ?thesis by blast
qed

theorem missing_variable_no_call_witness:
  "script ((example_world token_ok upload_ok publish_ok)
        \<lparr>environ := example_environ(''WEBSTORE_REFRESH_TOKEN'' := None)\<rparr>) =
     (1, \<lparr>events = [], open_files = []\<rparr>)"
  using missing_variable_no_call [of "''WEBSTORE_REFRESH_TOKEN''"
      "(example_world token_ok upload_ok publish_ok)
        \<lparr>environ := example_environ(''WEBSTORE_REFRESH_TOKEN'' := None)\<rparr>" initial]
  by (auto simp: required_variables_def initial_def)

text \<open>
  Claim C8. When the file can be opened, \<open>upload\<close> does exactly three things, whatever
  the transport answers and whatever the outcome (a normal return, an \<open>HTTPError\<close>, a
  failed \<open>uploadState\<close> check, or any other exception): it opens \<open>file_path\<close> in mode
  \<open>rb\<close>, it sends the one request whose body is that handle, and it closes that handle,
  in this order; the handles open afterwards are those open before. When \<open>open\<close>
  raises, that error is the outcome and nothing was opened or sent.
\<close>
theorem upload_closes_file:
  "(files w file_path = Inr bytes \<longrightarrow>
      events (snd (upload w token extension_id file_path s)) =
        events s @
          [Opened \<lparr>name = file_path, mode = ''rb'', content = bytes\<rparr>,
           Sent (upload_request token extension_id file_path bytes),
           Closed \<lparr>name = file_path, mode = ''rb'', content = bytes\<rparr>] \<and>
      data (upload_request token extension_id file_path bytes) =
        FileData \<lparr>name = file_path, mode = ''rb'', content = bytes\<rparr>) \<and>
   (files w file_path = Inl e \<longrightarrow> upload w token extension_id file_path s = (Inl e, s)) \<and>
   open_files (snd (upload w token extension_id file_path s)) = open_files s"
proof (cases "files w file_path")
  case (Inl e')
  then show ?thesis by (simp add: upload_not_opened)
next
  case (Inr c)
  then show ?thesis by (simp add: upload_sent upload_request_def)
qed

theorem upload_closes_file_witness:
  "events (snd (upload (example_world token_ok upload_ok publish_ok) (JString ''X'')
      ''ext'' ''ext.zip'' initial)) =
     [Opened example_file, Sent (upload_request (JString ''X'') ''ext'' ''ext.zip'' ''PK''),
      Closed example_file] \<and>
   upload (example_world token_ok (json_response 500 ''error'' JNull) publish_ok)
      (JString ''X'') ''ext'' ''ext.zip'' initial =
     (Inl (HTTPError 500),
      \<lparr>events = [Opened example_file,
                 Sent (upload_request (JString ''X'') ''ext'' ''ext.zip'' ''PK''),
                 Closed example_file],
       open_files = []\<rparr>) \<and>
   upload (example_world token_ok
      (json_response 200 ''{uploadState: FAILURE}''
         (JObject [(''uploadState'', JString ''FAILURE'')])) publish_ok)
      (JString ''X'') ''ext'' ''ext.zip'' initial =
     (Inl (RuntimeError ''Upload failed: {uploadState: FAILURE}''),
      \<lparr>events = [Opened example_file,
                 Sent (upload_request (JString ''X'') ''ext'' ''ext.zip'' ''PK''),
                 Closed example_file],
       open_files = []\<rparr>)"
  using upload_closes_file [of "example_world token_ok upload_ok publish_ok" "''ext.zip''"
      "''PK''" "JString ''X''" "''ext''" initial "OSError ''ext.zip''"]
    upload_closes_file [of "example_world token_ok (json_response 500 ''error'' JNull) publish_ok"
      "''ext.zip''" "''PK''" "JString ''X''" "''ext''" initial "OSError ''ext.zip''"]
    upload_closes_file [of "example_world token_ok
      (json_response 200 ''{uploadState: FAILURE}''
         (JObject [(''uploadState'', JString ''FAILURE'')])) publish_ok"
      "''ext.zip''" "''PK''" "JString ''X''" "''ext''" initial "OSError ''ext.zip''"]
  by (simp add: upload_sent [of _ _ "''PK''"] initial_def example_file_def json_response_def
      success_status_def raise_for_status_def get_def)

text \<open>
  Claim C1. When the token step, the upload step and the publish step all succeed, the
  process has sent exactly three requests, in this order: the token request, the upload
  request, the publish request. The whole run is: token request sent, file opened, upload
  request sent, file closed, publish request sent; no file is left open and the exit
  status is 0.
\<close>
theorem main_success_three_calls:
  assumes "environ w ''EXTENSION_ID'' = Some extension_id"
    and "environ w ''FILE_NAME'' = Some file_path"
    and "environ w ''PUBLISH_TARGET'' = Some publish_target"
    and "environ w ''WEBSTORE_CLIENT_ID'' = Some a"
    and "environ w ''WEBSTORE_CLIENT_SECRET'' = Some b"
    and "environ w ''WEBSTORE_REFRESH_TOKEN'' = Some c"
    and "files w file_path = Inr bytes"
    and "getToken w initial = (Inr token, s1)"
    and "upload w token extension_id file_path s1 = (Inr (), s2)"
    and "publish w token extension_id publish_target s2 = (Inr (), s3)"
  shows "script w =
           (0, \<lparr>events = [Sent (token_request a b c),
                          Opened \<lparr>name = file_path, mode = ''rb'', content = bytes\<rparr>,
                          Sent (upload_request token extension_id file_path bytes),
                          Closed \<lparr>name = file_path, mode = ''rb'', content = bytes\<rparr>,
                          Sent (publish_request token extension_id publish_target)],
                open_files = []\<rparr>) \<and>
         calls (snd (script w)) =
           [token_request a b c,
            upload_request token extension_id file_path bytes,
            publish_request token extension_id publish_target]"
proof -
  from assms(8) have s1: "s1 = initial\<lparr>events := events initial @ [Sent (token_request a b c)]\<rparr>"
    by (simp add: getToken_sent [OF assms(4-6)])
  from assms(9) have s2:
    "s2 = s1\<lparr>events := events s1 @
       [Opened \<lparr>name = file_path, mode = ''rb'', content = bytes\<rparr>,
        Sent (upload_request token extension_id file_path bytes),
        Closed \<lparr>name = file_path, mode = ''rb'', content = bytes\<rparr>]\<rparr>"
    by (simp add: upload_sent [OF assms(7)])
  from assms(10) have s3:
    "s3 = s2\<lparr>events := events s2 @ [Sent (publish_request token extension_id publish_target)]\<rparr>"
    by (simp add: publish_sent)
  have "main w initial = (Inr (), s3)"
    using assms(1-3,8-10) by (simp add: main_def)
  then have "script w = (0, s3)" by (simp add: script_def)
  then show ?thesis by (simp add: s1 s2 s3 initial_def calls_def)
qed

theorem main_success_three_calls_witness:
  "script (example_world token_ok upload_ok publish_ok) =
     (0, \<lparr>events = [Sent (token_request ''id'' ''secret'' ''refresh''),
                    Opened example_file,
                    Sent (upload_request (JString ''X'') ''ext'' ''ext.zip'' ''PK''),
                    Closed example_file,
                    Sent (publish_request (JString ''X'') ''ext'' ''default'')],
          open_files = []\<rparr>)"
  using main_success_three_calls [of "example_world token_ok upload_ok publish_ok"
      "''ext''" "''ext.zip''" "''default''" "''id''" "''secret''" "''refresh''" "''PK''"
      "JString ''X''"
      "\<lparr>events = [Sent (token_request ''id'' ''secret'' ''refresh'')], open_files = []\<rparr>"
      "\<lparr>events = [Sent (token_request ''id'' ''secret'' ''refresh''),
                  Opened example_file,
                  Sent (upload_request (JString ''X'') ''ext'' ''ext.zip'' ''PK''),
                  Closed example_file], open_files = []\<rparr>"
      "\<lparr>events = [Sent (token_request ''id'' ''secret'' ''refresh''),
                  Opened example_file,
                  Sent (upload_request (JString ''X'') ''ext'' ''ext.zip'' ''PK''),
                  Closed example_file,
                  Sent (publish_request (JString ''X'') ''ext'' ''default'')],
        open_files = []\<rparr>"]
  by (simp add: getToken_sent [of _ "''id''" "''secret''" "''refresh''"] upload_sent [of _ _ "''PK''"]
      publish_sent token_ok_def upload_ok_def publish_ok_def json_response_def
      success_status_def initial_def py_set_def example_file_def)

text \<open>
  Claim C2. When the upload step raises an error, whatever the error, \<open>main\<close> raises
  that error, the process exits with status 1 and no request to the publish URL has been
  sent. More generally a failing step ends the run: when the token step raises, neither
  the upload URL nor the publish URL has been requested and no file has been opened.
\<close>
theorem failure_stops_later_steps:
  assumes "environ w ''EXTENSION_ID'' = Some extension_id"
    and "environ w ''FILE_NAME'' = Some file_path"
    and "environ w ''PUBLISH_TARGET'' = Some publish_target"
  shows "(getToken w initial = (Inr token, s1) \<and>
          upload w token extension_id file_path s1 = (Inl e, s2) \<longrightarrow>
            main w initial = (Inl e, s2) \<and> script w = (1, s2) \<and>
            publish_url extension_id \<notin> url ` set (calls s2)) \<and>
         (getToken w initial = (Inl e, s1) \<longrightarrow>
            main w initial = (Inl e, s1) \<and> script w = (1, s1) \<and> open_files s1 = [] \<and>
            upload_url extension_id \<notin> url ` set (calls s1) \<and>
            publish_url extension_id \<notin> url ` set (calls s1))"
proof -
  have up: "main w initial = (Inl e, s2) \<and> script w = (1, s2) \<and>
            publish_url extension_id \<notin> url ` set (calls s2)"
    if tok: "getToken w initial = (Inr token, s1)"
      and upl: "upload w token extension_id file_path s1 = (Inl e, s2)"
  proof -
    have m: "main w initial = (Inl e, s2)"
      using assms tok upl by (simp add: main_def)
    from getToken_state [OF tok] upload_state [OF upl]
    have "publish_url extension_id \<notin> url ` set (calls s2)"
      by auto
    with m show ?thesis by (simp add: script_def)
  qed
  have tk: "main w initial = (Inl e, s1) \<and> script w = (1, s1) \<and> open_files s1 = [] \<and>
            upload_url extension_id \<notin> url ` set (calls s1) \<and>
            publish_url extension_id \<notin> url ` set (calls s1)"
    if tok: "getToken w initial = (Inl e, s1)"
  proof -
    have m: "main w initial = (Inl e, s1)"
      using assms tok by (simp add: main_def)
    from getToken_state [OF tok]
    have "open_files s1 = [] \<and> upload_url extension_id \<notin> url ` set (calls s1) \<and>
            publish_url extension_id \<notin> url ` set (calls s1)"
      by (auto simp: initial_def calls_def)
    with m show ?thesis by (simp add: script_def)
  qed
  from up tk show ?thesis by blast
qed

theorem failure_stops_later_steps_witness:
  "script (example_world token_ok (json_response 500 ''error'' JNull) publish_ok) =
     (1, \<lparr>events = [Sent (token_request ''id'' ''secret'' ''refresh''),
                    Opened example_file,
                    Sent (upload_request (JString ''X'') ''ext'' ''ext.zip'' ''PK''),
                    Closed example_file],
          open_files = []\<rparr>) \<and>
   script (example_world (json_response 200 ''{}'' (JObject [])) upload_ok publish_ok) =
     (1, \<lparr>events = [Sent (token_request ''id'' ''secret'' ''refresh'')], open_files = []\<rparr>)"
  using failure_stops_later_steps [of
      "example_world token_ok (json_response 500 ''error'' JNull) publish_ok"
      "''ext''" "''ext.zip''" "''default''" "JString ''X''"
      "\<lparr>events = [Sent (token_request ''id'' ''secret'' ''refresh'')], open_files = []\<rparr>"
      "HTTPError 500"
      "\<lparr>events = [Sent (token_request ''id'' ''secret'' ''refresh''),
                  Opened example_file,
                  Sent (upload_request (JString ''X'') ''ext'' ''ext.zip'' ''PK''),
                  Closed example_file], open_files = []\<rparr>"]
    failure_stops_later_steps [of
      "example_world (json_response 200 ''{}'' (JObject [])) upload_ok publish_ok"
      "''ext''" "''ext.zip''" "''default''" "JString ''X''"
      "\<lparr>events = [Sent (token_request ''id'' ''secret'' ''refresh'')], open_files = []\<rparr>"
      "RuntimeError ''Failed to get access token: {}''" initial]
  by (simp add: getToken_sent [of _ "''id''" "''secret''" "''refresh''"] upload_sent [of _ _ "''PK''"]
      token_ok_def json_response_def initial_def example_file_def)

end
